theory Spec2Isabelle
  imports Main
begin

section \<open>Request metadata of the Tigris server (package \<open>server/request\<close>)\<close>

text \<open>
  The development embeds \<open>server/request/request.go\<close>: the extraction of
  namespace, user type, subject and role from the bearer token of a call, the
  resolution of the namespace name, the classification of method names, the
  routing fields taken from the request payload, and the accessors of the
  metadata stored in a call's context.

  Go strings are byte strings and are modelled as \<open>string\<close>. A Go function
  returning \<open>(v, err)\<close> is modelled with a sum type, \<open>Inl\<close> carrying the error.
  Logging calls (\<open>log.Debug\<close>, \<open>log.Error\<close>, \<open>ulog.E\<close>) have no effect on any
  returned value and are left out.
\<close>

subsection \<open>Go standard library: \<open>strings\<close>\<close>

text \<open>
  \<open>strings.Split(s, sep)\<close> and \<open>strings.SplitN(s, sep, n)\<close> for a separator of one
  byte, which is what both call sites pass (\<open>"."\<close> and \<open>" "\<close>). \<open>SplitN\<close> with
  \<open>n = 0\<close> returns no substring; with \<open>n > 0\<close> it returns at most \<open>n\<close> substrings
  and the last one is the unsplit remainder.
\<close>

fun Split :: "string \<Rightarrow> char \<Rightarrow> string list" where
  "Split [] sep = [[]]"
| "Split (x # xs) sep =
     (if x = sep then [] # Split xs sep
      else (case Split xs sep of [] \<Rightarrow> [] | y # ys \<Rightarrow> (x # y) # ys))"

fun SplitN :: "string \<Rightarrow> char \<Rightarrow> nat \<Rightarrow> string list" where
  "SplitN s sep 0 = []"
| "SplitN s sep (Suc 0) = [s]"
| "SplitN [] sep (Suc (Suc n)) = [[]]"
| "SplitN (x # xs) sep (Suc (Suc n)) =
     (if x = sep then [] # SplitN xs sep (Suc n)
      else (case SplitN xs sep (Suc (Suc n)) of [] \<Rightarrow> [] | y # ys \<Rightarrow> (x # y) # ys))"

definition HasPrefix :: "string \<Rightarrow> string \<Rightarrow> bool" where
  "HasPrefix s pre = (length pre \<le> length s \<and> take (length pre) s = pre)"

subsection \<open>Go standard library: \<open>encoding/base64\<close>\<close>

text \<open>
  \<open>DecodeString\<close> of \<open>base64.RawStdEncoding\<close> (no padding character) and of
  \<open>base64.StdEncoding\<close> (padding character \<open>=\<close>), both over the standard alphabet
  and both in the default, non-strict mode. The decoder reads quanta of four
  alphabet characters, skips carriage returns and line feeds, accepts padding
  only where the encoding has a padding character, and refuses an input that
  ends inside a quantum when padding is required. \<open>dbuf\<close> holds the six-bit values
  of the quantum read so far. The caller only tests the error, so the bytes
  decoded before an error are not kept.
\<close>

datatype b64_error = CorruptInputError

definition encodeStd :: string where
  "encodeStd = ''ABCDEFGHIJKLMNOPQRSTUVWXYZabcdefghijklmnopqrstuvwxyz0123456789+/''"

definition decodeMap :: "char \<Rightarrow> int option" where
  "decodeMap c = map_of (zip encodeStd (map int [0 ..< length encodeStd])) c"

definition is_newline :: "char \<Rightarrow> bool" where
  "is_newline c = (c = CHR 0x0A \<or> c = CHR 0x0D)"

definition assemble :: "int list \<Rightarrow> string" where
  "assemble dbuf =
     (let d = dbuf @ replicate (4 - length dbuf) 0;
          val = d ! 0 * 262144 + d ! 1 * 4096 + d ! 2 * 64 + d ! 3
      in take (length dbuf - 1)
           [char_of (val div 65536), char_of (val div 256), char_of val])"

fun decode :: "char option \<Rightarrow> int list \<Rightarrow> string \<Rightarrow> b64_error + string" where
  "decode padChar dbuf [] =
     (if dbuf = [] then Inr []
      else if length dbuf = 1 \<or> padChar \<noteq> None then Inl CorruptInputError
      else Inr (assemble dbuf))"
| "decode padChar dbuf (c # src) =
     (case decodeMap c of
        Some out \<Rightarrow>
          if length dbuf = 3
          then (case decode padChar [] src of
                  Inl e \<Rightarrow> Inl e
                | Inr rest \<Rightarrow> Inr (assemble (dbuf @ [out]) @ rest))
          else decode padChar (dbuf @ [out]) src
      | None \<Rightarrow>
          if is_newline c then decode padChar dbuf src
          else if padChar \<noteq> Some c then Inl CorruptInputError
          else if length dbuf < 2 then Inl CorruptInputError
          else if length dbuf = 2 then
            (case dropWhile is_newline src of
               [] \<Rightarrow> Inl CorruptInputError
             | c' # src' \<Rightarrow>
                 if padChar \<noteq> Some c' then Inl CorruptInputError
                 else if dropWhile is_newline src' \<noteq> [] then Inl CorruptInputError
                 else Inr (assemble dbuf))
          else if dropWhile is_newline src \<noteq> [] then Inl CorruptInputError
          else Inr (assemble dbuf))"

definition RawStdEncoding_DecodeString :: "string \<Rightarrow> b64_error + string" where
  "RawStdEncoding_DecodeString s = decode None [] s"

definition StdEncoding_DecodeString :: "string \<Rightarrow> b64_error + string" where
  "StdEncoding_DecodeString s = decode (Some (CHR ''='')) [] s"

subsection \<open>Library \<open>github.com/buger/jsonparser\<close>: \<open>GetString\<close>\<close>

text \<open>
  \<open>jsonparser.GetString(data, keys...)\<close> does not build a document: it scans the
  bytes for the key path and returns the string literal that follows the last
  key. The scan keeps the nesting \<open>level\<close>, the number \<open>keyLevel\<close> of keys of the path
  matched so far and whether the last key read matched; it skips the object
  under a key that did not match and never searches inside arrays. A value that
  is not a string literal is an error. The key paths of this package name object
  members only, so array indices in a path are not modelled, and of the escape
  sequences the two-character ones are (a \<open>\u\<close> escape is reported as malformed
  here, the library decodes it).
\<close>

datatype json_error =
    KeyPathNotFoundError | MalformedJsonError | MalformedStringError
  | MalformedValueError | ValueIsNotAString

definition dq :: char where
  "dq = CHR 0x22"

definition bslash :: char where
  "bslash = CHR 0x5C"

definition is_ws :: "char \<Rightarrow> bool" where
  "is_ws c = (c = CHR '' '' \<or> c = CHR 0x0A \<or> c = CHR 0x0D \<or> c = CHR 0x09)"

text \<open>The empty remainder stands for the library's result \<open>-1\<close>.\<close>

definition nextToken :: "string \<Rightarrow> string" where
  "nextToken data = dropWhile is_ws data"

text \<open>
  \<open>stringEnd\<close> is called just after an opening quote: it returns the bytes up to
  the closing quote, the bytes after it, and whether a backslash occurred.
\<close>

fun stringEnd :: "string \<Rightarrow> (string \<times> string \<times> bool) option" where
  "stringEnd [] = None"
| "stringEnd (c # cs) =
     (if c = dq then Some ([], cs, False)
      else if c = bslash then
        (case cs of
           [] \<Rightarrow> None
         | d # ds \<Rightarrow> map_option (\<lambda>(k, r, e). (c # d # k, r, True)) (stringEnd ds))
      else map_option (\<lambda>(k, r, e). (c # k, r, e)) (stringEnd cs))"

lemma stringEnd_length:
  "stringEnd cs = Some (k, rest, e) \<Longrightarrow> length rest < length cs"
proof (induction cs arbitrary: k e rule: stringEnd.induct)
  case 1
  then show ?case by simp
next
  case (2 c cs)
  then show ?case
    by (fastforce split: if_splits list.splits)
qed

function blockEnd :: "char \<Rightarrow> char \<Rightarrow> int \<Rightarrow> string \<Rightarrow> string option" where
  "blockEnd openSym closeSym level [] = None"
| "blockEnd openSym closeSym level (c # cs) =
     (if c = dq then
        (case stringEnd cs of
           None \<Rightarrow> None
         | Some (k, rest, e) \<Rightarrow> blockEnd openSym closeSym level rest)
      else if c = openSym then blockEnd openSym closeSym (level + 1) cs
      else if c = closeSym then
        (if level - 1 = 0 then Some cs else blockEnd openSym closeSym (level - 1) cs)
      else blockEnd openSym closeSym level cs)"
  by pat_completeness auto
termination
  by (relation "measure (\<lambda>(openSym, closeSym, level, s). length s)")
     (auto dest: stringEnd_length)

lemma blockEnd_length:
  "blockEnd openSym closeSym level s = Some rest \<Longrightarrow> length rest < length s"
proof (induction openSym closeSym level s rule: blockEnd.induct)
  case (1 openSym closeSym level)
  then show ?case by simp
next
  case (2 openSym closeSym level c cs)
  then show ?case
    by (fastforce split: if_splits option.splits dest: stringEnd_length)
qed

definition unescapeChar :: "char \<Rightarrow> char option" where
  "unescapeChar d =
     (if d = dq \<or> d = bslash \<or> d = CHR ''/'' then Some d
      else if d = CHR ''b'' then Some (CHR 0x08)
      else if d = CHR ''f'' then Some (CHR 0x0C)
      else if d = CHR ''n'' then Some (CHR 0x0A)
      else if d = CHR ''r'' then Some (CHR 0x0D)
      else if d = CHR ''t'' then Some (CHR 0x09)
      else None)"

fun Unescape :: "string \<Rightarrow> string option" where
  "Unescape [] = Some []"
| "Unescape (c # cs) =
     (if c = bslash then
        (case cs of
           [] \<Rightarrow> None
         | d # ds \<Rightarrow>
             (case unescapeChar d of
                None \<Rightarrow> None
              | Some x \<Rightarrow> map_option ((#) x) (Unescape ds)))
      else map_option ((#) c) (Unescape cs))"

lemma nextToken_length: "length (nextToken s) \<le> length s"
  by (simp add: nextToken_def length_dropWhile_le)

function searchKeys ::
  "string list \<Rightarrow> int \<Rightarrow> int \<Rightarrow> bool \<Rightarrow> string \<Rightarrow> string option" where
  "searchKeys keys keyLevel level lastMatched [] = None"
| "searchKeys keys keyLevel level lastMatched (c # cs) =
     (if c = dq then
        (case stringEnd cs of
           None \<Rightarrow> None
         | Some (key, rest, keyEscaped) \<Rightarrow>
             (case nextToken rest of
                [] \<Rightarrow> None
              | t # ts \<Rightarrow>
                  if t = CHR '':'' then
                    (if level < 1 then None
                     else
                       (case (if keyEscaped then Unescape key else Some key) of
                          None \<Rightarrow> None
                        | Some keyUnesc \<Rightarrow>
                            if level \<le> int (length keys) then
                              (if keyUnesc = keys ! nat (level - 1) then
                                 (if keyLevel = level - 1 then
                                    (if keyLevel + 1 = int (length keys) then Some ts
                                     else searchKeys keys (keyLevel + 1) level True ts)
                                  else searchKeys keys keyLevel level True ts)
                               else searchKeys keys keyLevel level False ts)
                            else None))
                  else searchKeys keys keyLevel level lastMatched (t # ts)))
      else if c = CHR ''{'' then
        (if \<not> lastMatched then
           (case blockEnd (CHR ''{'') (CHR ''}'') 0 (c # cs) of
              None \<Rightarrow> None
            | Some rest \<Rightarrow> searchKeys keys keyLevel level lastMatched rest)
         else searchKeys keys keyLevel (level + 1) lastMatched cs)
      else if c = CHR ''}'' then
        searchKeys keys (if level - 1 = keyLevel then keyLevel - 1 else keyLevel)
          (level - 1) lastMatched cs
      else if c = CHR ''['' then
        (case blockEnd (CHR ''['') (CHR '']'') 0 (c # cs) of
           None \<Rightarrow> None
         | Some rest \<Rightarrow> searchKeys keys keyLevel level lastMatched rest)
      else if c = CHR '':'' then None
      else searchKeys keys keyLevel level lastMatched cs)"
  by pat_completeness auto
termination
proof (relation "measure (\<lambda>(keys, keyLevel, level, lastMatched, s). length s)", goal_cases)
  case 1
  then show ?case by simp
next
  case (2 keys keyLevel level lastMatched c cs x2 key y rest keyEscaped t ts)
  then show ?case
    using stringEnd_length[of cs key rest keyEscaped] nextToken_length[of rest] by simp
next
  case (3 keys keyLevel level lastMatched c cs x2 key y rest keyEscaped t ts)
  then show ?case
    using stringEnd_length[of cs key rest keyEscaped] nextToken_length[of rest] by simp
next
  case (4 keys keyLevel level lastMatched c cs x2 key y rest keyEscaped t ts)
  then show ?case
    using stringEnd_length[of cs key rest keyEscaped] nextToken_length[of rest] by simp
next
  case (5 keys keyLevel level lastMatched c cs x2 key y rest keyEscaped t ts)
  then show ?case
    using stringEnd_length[of cs key rest keyEscaped] nextToken_length[of rest] by simp
next
  case (6 keys keyLevel level lastMatched c cs rest)
  then show ?case
    using blockEnd_length[of "CHR ''{''" "CHR ''}''" 0 "c # cs" rest] by simp
next
  case 7
  then show ?case by simp
next
  case 8
  then show ?case by simp
next
  case (9 keys keyLevel level lastMatched c cs rest)
  then show ?case
    using blockEnd_length[of "CHR ''[''" "CHR '']''" 0 "c # cs" rest] by simp
next
  case 10
  then show ?case by simp
qed

definition jsonparser_GetString :: "string \<Rightarrow> string list \<Rightarrow> json_error + string" where
  "jsonparser_GetString data keys =
     (case (if keys = [] then Some data else searchKeys keys 0 0 True data) of
        None \<Rightarrow> Inl KeyPathNotFoundError
      | Some rest \<Rightarrow>
          (case nextToken rest of
             [] \<Rightarrow> Inl MalformedJsonError
           | t # ts \<Rightarrow>
               if t = dq then
                 (case stringEnd ts of
                    None \<Rightarrow> Inl MalformedStringError
                  | Some (v, r, e) \<Rightarrow>
                      if bslash \<notin> set v then Inr v
                      else (case Unescape v of
                              None \<Rightarrow> Inl MalformedValueError
                            | Some s \<Rightarrow> Inr s))
               else Inl ValueIsNotAString))"

subsection \<open>What the file imports from the rest of the repository\<close>

text \<open>
  Modelled from the spec: the packages \<open>server/defaults\<close>, \<open>server/config\<close>,
  \<open>errors\<close>, \<open>server/types\<close>, \<open>server/metadata\<close>, \<open>lib/container\<close> and
  \<open>api/server/v1\<close> are not among the sources. Their constants are parameters of
  the model: \<open>defaults\<close> holds the unknown sentinel and the default namespace
  name, \<open>AuthConfig\<close> the two flags of \<open>config.DefaultConfig.Auth\<close> that the file
  reads, and \<open>api\<close> the method names, the method-name prefixes and the header
  lookup of package \<open>api\<close>. Every theorem below holds for all values of these
  parameters.
\<close>

record defaults =
  UnknownValue :: string
  DefaultNamespaceName :: string

record AuthConfig =
  Enabled :: bool
  EnableNamespaceIsolation :: bool

text \<open>
  Modelled from the spec: \<open>errors.NotFound\<close> and \<open>errors.InvalidArgument\<close> build
  an error of the repository's typed error class with the given code; \<open>Errorf\<close> is
  the untyped error of \<open>fmt.Errorf\<close>.
\<close>

datatype Code = NotFound | InvalidArgument

datatype error = TigrisError Code string | Errorf string

definition errors_NotFound :: "string \<Rightarrow> error" where
  "errors_NotFound msg = TigrisError NotFound msg"

definition errors_InvalidArgument :: "string \<Rightarrow> error" where
  "errors_InvalidArgument msg = TigrisError InvalidArgument msg"

text \<open>The two fields of \<open>types.AccessToken\<close> that the file reads.\<close>

record AccessToken =
  token_Namespace :: string
  token_Sub :: string

text \<open>\<open>grpc.MethodInfo\<close>.\<close>

record MethodInfo =
  Name :: string
  IsClientStream :: bool
  IsServerStream :: bool

text \<open>
  The struct \<open>Metadata\<close>. The field \<open>Role\<close> is written \<open>Role'\<close>: the name \<open>Role\<close> is
  the claim key below. \<open>accessToken\<close> is a pointer, \<open>None\<close> when nil.
\<close>

record Metadata =
  accessToken :: "AccessToken option"
  serviceName :: string
  methodInfo :: MethodInfo
  namespace :: string
  namespaceName :: string
  IsHuman :: bool
  project :: string
  branch :: string
  collection :: string
  Sub :: string
  Role' :: string

subsection \<open>The call context\<close>

text \<open>
  A \<open>context.Context\<close> as a chain of \<open>context.WithValue\<close> over the background
  context. \<open>Value\<close> returns the value of the innermost entry with the key, and nil
  when there is none. The values are what a type assertion can tell apart: nil,
  a \<open>*Metadata\<close> (the struct it points to), or a value of another type.
\<close>

datatype ctxkey = MetadataCtxKey | OtherKey string

datatype any_value = NilValue | MetadataPtr Metadata | OtherValue string

datatype Context = Background | WithValue Context ctxkey any_value

fun Value :: "Context \<Rightarrow> ctxkey \<Rightarrow> any_value" where
  "Value Background key = NilValue"
| "Value (WithValue parent k v) key = (if k = key then v else Value parent key)"

text \<open>Whether some entry of the chain was stored under the key.\<close>

fun attached :: "Context \<Rightarrow> ctxkey \<Rightarrow> bool" where
  "attached Background key = False"
| "attached (WithValue parent k v) key = (k = key \<or> attached parent key)"

record api =
  ObservabilityMethodPrefix :: string
  ManagementMethodPrefix :: string
  ReadMethodName :: string
  SearchMethodName :: string
  ListCollectionsMethodName :: string
  ListProjectsMethodName :: string
  DescribeCollectionMethodName :: string
  DescribeDatabaseMethodName :: string
  CreateNamespaceMethodName :: string
  ListNamespacesMethodName :: string
  DeleteNamespaceMethodName :: string
  VerifyInvitationMethodName :: string
  HeaderAuthorization :: string
  GetHeader :: "Context \<Rightarrow> string \<Rightarrow> string"

text \<open>
  Modelled from the spec: \<open>container.HashSet\<close> is a set of strings with a
  membership test, kept as a Go map from the members to the empty struct.
\<close>

type_synonym HashSet = "string \<Rightarrow> unit option"

definition NewHashSet :: "string list \<Rightarrow> HashSet" where
  "NewHashSet members = fold (\<lambda>x stringMap. stringMap(x \<mapsto> ())) members Map.empty"

definition Contains :: "HashSet \<Rightarrow> string \<Rightarrow> bool" where
  "Contains stringMap x = (stringMap x \<noteq> None)"

text \<open>
  Modelled from the spec: a tenant exposes the display name of its namespace
  (\<open>tenant.GetNamespace().Metadata().Name\<close>), and the tenant directory is a
  collaborator with a lookup by namespace identifier. The lookup returns the
  Go pair of a tenant pointer and an error; it may keep a state of its own
  (a cache, a call counter), of any type \<open>'s\<close>, which it returns updated.
\<close>

datatype Tenant = Tenant (GetNamespace_Metadata_Name: string)

type_synonym 's TenantGetter =
  "Context \<Rightarrow> string \<Rightarrow> 's \<Rightarrow> (Tenant option \<times> error option) \<times> 's"

text \<open>
  Modelled from the spec: a request payload, by the getters its dynamic type
  has (\<open>None\<close>: the type has no such method). The payload satisfies
  \<open>api.RequestWithProjectAndCollection\<close> when it has the three getters and
  \<open>api.RequestWithProject\<close> when it has \<open>GetProject\<close> and \<open>GetBranch\<close>.
\<close>

record request =
  GetProject :: "string option"
  GetBranch :: "string option"
  GetCollection :: "string option"

subsection \<open>The file \<open>request.go\<close>\<close>

definition JWTTigrisClaimSpace :: string where
  "JWTTigrisClaimSpace = ''https://tigris''"

definition NamespaceCode :: string where
  "NamespaceCode = ''nc''"

definition Role :: string where
  "Role = ''r''"

definition UserEmail :: string where
  "UserEmail = ''ue''"

definition Subject :: string where
  "Subject = ''sub''"

definition adminMethods :: "api \<Rightarrow> HashSet" where
  "adminMethods A =
     NewHashSet [CreateNamespaceMethodName A, ListNamespacesMethodName A,
                 DeleteNamespaceMethodName A, VerifyInvitationMethodName A]"

text \<open>
  \<open>req\<close> is \<open>None\<close> for the nil interface. The two type assertions are tried in
  the order of the source.
\<close>

definition GetProjectAndBranchAndColl ::
  "defaults \<Rightarrow> request option \<Rightarrow> string \<times> string \<times> string" where
  "GetProjectAndBranchAndColl D req =
     (case req of
        None \<Rightarrow> ([], UnknownValue D, [])
      | Some r \<Rightarrow>
          (case (GetProject r, GetBranch r, GetCollection r) of
             (Some p, Some b, Some c) \<Rightarrow> (p, if b \<noteq> [] then b else ''main'', c)
           | (Some p, Some b, None) \<Rightarrow> (p, if b \<noteq> [] then b else ''main'', [])
           | _ \<Rightarrow> ([], UnknownValue D, [])))"

definition SaveToContext :: "Metadata \<Rightarrow> Context \<Rightarrow> Context" where
  "SaveToContext m ctx = WithValue ctx MetadataCtxKey (MetadataPtr m)"

text \<open>
  \<open>SetNamespace\<close> writes two fields of its receiver and returns nothing: the model
  returns the updated struct together with the state of the tenant directory.
  The package variable \<open>tenantGetter\<close> is nil until \<open>Init\<close> is called; calling
  \<open>GetTenant\<close> on it then panics.
\<close>

datatype panic = NilPointerDereference

definition SetNamespace ::
  "defaults \<Rightarrow> AuthConfig \<Rightarrow> 's TenantGetter option \<Rightarrow> Metadata \<Rightarrow> Context \<Rightarrow> string \<Rightarrow> 's
     \<Rightarrow> panic + (Metadata \<times> 's)" where
  "SetNamespace D cfg tenantGetter m ctx ns s =
     (let m1 = m\<lparr>namespace := ns\<rparr> in
      if \<not> EnableNamespaceIsolation cfg \<and> \<not> Enabled cfg
      then Inr (m1\<lparr>namespaceName := DefaultNamespaceName D\<rparr>, s)
      else if ns = UnknownValue D
      then Inr (m1\<lparr>namespaceName := UnknownValue D\<rparr>, s)
      else
        (case tenantGetter of
           None \<Rightarrow> Inl NilPointerDereference
         | Some GetTenant \<Rightarrow>
             (case GetTenant ctx ns s of
                ((tenant, err), s') \<Rightarrow>
                  if err \<noteq> None then Inr (m1\<lparr>namespaceName := UnknownValue D\<rparr>, s')
                  else
                    (case tenant of
                       None \<Rightarrow> Inr (m1\<lparr>namespaceName := UnknownValue D\<rparr>, s')
                     | Some t \<Rightarrow>
                         Inr (m1\<lparr>namespaceName := GetNamespace_Metadata_Name t\<rparr>, s')))))"

definition ErrNamespaceNotFound :: error where
  "ErrNamespaceNotFound = errors_NotFound ''namespace not found''"

definition GetRequestMetadataFromContext :: "Context \<Rightarrow> error + Metadata" where
  "GetRequestMetadataFromContext ctx =
     (case Value ctx MetadataCtxKey of
        MetadataPtr requestMetadata \<Rightarrow> Inr requestMetadata
      | _ \<Rightarrow> Inl (errors_NotFound ''Metadata not found''))"

definition GetAccessToken :: "Context \<Rightarrow> error + AccessToken" where
  "GetAccessToken ctx =
     (case Value ctx MetadataCtxKey of
        MetadataPtr requestMetadata \<Rightarrow>
          (case accessToken requestMetadata of
             Some tkn \<Rightarrow> Inr tkn
           | None \<Rightarrow> Inl (errors_NotFound ''Access token not found''))
      | _ \<Rightarrow> Inl (errors_NotFound ''Access token not found''))"

definition GetCurrentSub :: "Context \<Rightarrow> error + string" where
  "GetCurrentSub ctx =
     (case GetAccessToken ctx of
        Inl err \<Rightarrow> Inl err
      | Inr tkn \<Rightarrow> Inr (token_Sub tkn))"

definition GetNamespace :: "Context \<Rightarrow> error + string" where
  "GetNamespace ctx =
     (case Value ctx MetadataCtxKey of
        MetadataPtr requestMetadata \<Rightarrow> Inr (namespace requestMetadata)
      | _ \<Rightarrow> Inl ErrNamespaceNotFound)"

definition IsHumanUser :: "Context \<Rightarrow> bool" where
  "IsHumanUser ctx =
     (case Value ctx MetadataCtxKey of
        MetadataPtr requestMetadata \<Rightarrow> IsHuman requestMetadata
      | _ \<Rightarrow> False)"

definition Extract :: "Context \<Rightarrow> error + string" where
  "Extract ctx =
     (case GetAccessToken ctx of
        Inl err \<Rightarrow> Inr ''unknown''
      | Inr token \<Rightarrow>
          if token_Namespace token \<noteq> [] then Inr (token_Namespace token)
          else Inl (errors_InvalidArgument ''Namespace is empty in the token''))"

definition IsAdminApi :: "api \<Rightarrow> string \<Rightarrow> bool" where
  "IsAdminApi A fullMethodName = Contains (adminMethods A) fullMethodName"

definition getTokenFromHeader :: "string \<Rightarrow> error + string" where
  "getTokenFromHeader header =
     (let splits = SplitN header (CHR '' '') 2 in
      if length splits < 2 then Inl (Errorf ''could not find token in header'')
      else Inr (splits ! 1))"

text \<open>
  The three library calls of \<open>getMetadataFromToken\<close> are a parameter, so that a
  theorem can speak of every behaviour of the libraries; \<open>go_imports\<close> are the
  libraries as modelled above.
\<close>

record jwt_imports =
  rawStdDecode :: "string \<Rightarrow> b64_error + string"
  stdDecode :: "string \<Rightarrow> b64_error + string"
  getString :: "string \<Rightarrow> string list \<Rightarrow> json_error + string"

definition go_imports :: jwt_imports where
  "go_imports =
     \<lparr>rawStdDecode = RawStdEncoding_DecodeString,
      stdDecode = StdEncoding_DecodeString,
      getString = jsonparser_GetString\<rparr>"

definition getMetadataFromToken ::
  "defaults \<Rightarrow> jwt_imports \<Rightarrow> string \<Rightarrow> string \<times> bool \<times> string \<times> string" where
  "getMetadataFromToken D L token =
     (let tokenParts = SplitN token (CHR ''.'') 3 in
      if length tokenParts < 3 then (UnknownValue D, False, [], [])
      else
        (case (case rawStdDecode L (tokenParts ! 1) of
                 Inr decoded \<Rightarrow> Inr decoded
               | Inl err \<Rightarrow> stdDecode L (tokenParts ! 1)) of
           Inl err \<Rightarrow> (UnknownValue D, False, [], [])
         | Inr decodedToken \<Rightarrow>
             (case (case getString L decodedToken [JWTTigrisClaimSpace, NamespaceCode] of
                      Inr code \<Rightarrow> Inr code
                    | Inl err \<Rightarrow>
                        getString L decodedToken [JWTTigrisClaimSpace @ ''/n'', ''code'']) of
                Inl err \<Rightarrow> (UnknownValue D, False, [], [])
              | Inr namespaceCode \<Rightarrow>
                  (let userEmail =
                         (case getString L decodedToken [JWTTigrisClaimSpace, UserEmail] of
                            Inr v \<Rightarrow> v | Inl err \<Rightarrow> []);
                       role =
                         (case getString L decodedToken [JWTTigrisClaimSpace, Role] of
                            Inr v \<Rightarrow> v | Inl err \<Rightarrow> [])
                   in (case getString L decodedToken [Subject] of
                         Inl err \<Rightarrow> (UnknownValue D, False, [], [])
                       | Inr sub \<Rightarrow> (namespaceCode, length userEmail > 0, sub, role))))))"

definition GetMetadataFromHeader ::
  "defaults \<Rightarrow> AuthConfig \<Rightarrow> api \<Rightarrow> jwt_imports \<Rightarrow> Context
     \<Rightarrow> string \<times> bool \<times> string \<times> string" where
  "GetMetadataFromHeader D cfg A L ctx =
     (if \<not> EnableNamespaceIsolation cfg then (DefaultNamespaceName D, False, [], [])
      else
        (let header = GetHeader A ctx (HeaderAuthorization A) in
         case getTokenFromHeader header of
           Inl err \<Rightarrow> (DefaultNamespaceName D, False, [], [])
         | Inr token \<Rightarrow> getMetadataFromToken D L token))"

definition isRead :: "api \<Rightarrow> string \<Rightarrow> bool" where
  "isRead A name =
     (if HasPrefix name (ObservabilityMethodPrefix A) then True
      else if HasPrefix name (ManagementMethodPrefix A) then True
      else if name = ReadMethodName A \<or> name = SearchMethodName A then True
      else if name = ListCollectionsMethodName A \<or> name = ListProjectsMethodName A then True
      else if name = DescribeCollectionMethodName A \<or> name = DescribeDatabaseMethodName A
      then True
      else False)"

definition isWrite :: "api \<Rightarrow> string \<Rightarrow> bool" where
  "isWrite A name = (\<not> isRead A name)"

subsection \<open>Values for the scenarios\<close>

text \<open>
  The scenarios below run the functions on concrete inputs. The strings of
  \<open>example_defaults\<close> stand for the two constants of package \<open>defaults\<close>;
  \<open>auth_test_config\<close> has the flags of \<open>config/server.test.yaml\<close>, and
  \<open>auth_disabled\<close> has both flags off. \<open>zero_Metadata\<close> is the zero value of the
  struct. The three tenant directories count their calls: one finds a tenant,
  one returns a not-found error, one returns nil without an error.
\<close>

definition example_defaults :: defaults where
  "example_defaults =
     \<lparr>UnknownValue = ''unknown'', DefaultNamespaceName = ''default_namespace''\<rparr>"

definition auth_disabled :: AuthConfig where
  "auth_disabled = \<lparr>Enabled = False, EnableNamespaceIsolation = False\<rparr>"

definition auth_test_config :: AuthConfig where
  "auth_test_config = \<lparr>Enabled = True, EnableNamespaceIsolation = True\<rparr>"

definition zero_Metadata :: Metadata where
  "zero_Metadata =
     \<lparr>accessToken = None, serviceName = [],
      methodInfo = \<lparr>Name = [], IsClientStream = False, IsServerStream = False\<rparr>,
      namespace = [], namespaceName = [], IsHuman = False,
      project = [], branch = [], collection = [], Sub = [], Role' = []\<rparr>"

definition counting_found :: "nat TenantGetter" where
  "counting_found ctx ns calls = ((Some (Tenant ''Acme Corp''), None), Suc calls)"

definition counting_not_found :: "nat TenantGetter" where
  "counting_not_found ctx ns calls =
     ((None, Some (errors_NotFound ''namespace not found'')), Suc calls)"

definition counting_nil :: "nat TenantGetter" where
  "counting_nil ctx ns calls = ((None, None), Suc calls)"

text \<open>
  \<open>claims_payload\<close> is a token payload with the four claims, \<open>claims_b64_raw\<close> its
  encoding in \<open>base64.RawStdEncoding\<close> and \<open>claims_b64_std\<close> its encoding in
  \<open>base64.StdEncoding\<close>, which ends in one padding character. \<open>nosub_payload\<close> is
  the same payload without the claim \<open>sub\<close>. The tokens put a payload between a
  header segment and a signature segment; \<open>token_four_segments\<close> has one
  segment more. \<open>example_api\<close> takes the value of the Authorization header of the
  call; its method names stand for those of package \<open>api\<close>.
\<close>

definition claims_payload :: string where
  \<open>claims_payload =
     ''{"sub":"s","https://tigris":{"nc":"ns1","ue":"e@x.com","r":"role1"}}''\<close>

definition claims_b64_raw :: string where
  "claims_b64_raw =
     ''eyJzdWIiOiJzIiwiaHR0cHM6Ly90aWdyaXMiOnsibmMiOiJuczEiLCJ1ZSI6ImVAeC5jb20iLCJyIjoicm9sZTEifX0''"

definition claims_b64_std :: string where
  "claims_b64_std =
     ''eyJzdWIiOiJzIiwiaHR0cHM6Ly90aWdyaXMiOnsibmMiOiJuczEiLCJ1ZSI6ImVAeC5jb20iLCJyIjoicm9sZTEifX0=''"

definition nosub_payload :: string where
  \<open>nosub_payload = ''{"https://tigris":{"nc":"ns1","ue":"e@x.com","r":"role1"}}''\<close>

definition nosub_b64_raw :: string where
  "nosub_b64_raw =
     ''eyJodHRwczovL3RpZ3JpcyI6eyJuYyI6Im5zMSIsInVlIjoiZUB4LmNvbSIsInIiOiJyb2xlMSJ9fQ''"

definition token_raw :: string where
  "token_raw = ''hdr.'' @ claims_b64_raw @ ''.sig''"

definition token_std :: string where
  "token_std = ''hdr.'' @ claims_b64_std @ ''.sig''"

definition token_four_segments :: string where
  "token_four_segments = ''hdr.'' @ claims_b64_raw @ ''.sig.extra''"

definition token_nosub :: string where
  "token_nosub = ''hdr.'' @ nosub_b64_raw @ ''.sig''"

definition bearer_header :: string where
  "bearer_header = ''Bearer '' @ token_raw"

definition example_api :: "string \<Rightarrow> api" where
  "example_api authorization =
     \<lparr>ObservabilityMethodPrefix = ''/tigrisdata.observability.v1.Observability/'',
      ManagementMethodPrefix = ''/tigrisdata.management.v1.Management/'',
      ReadMethodName = ''/tigrisdata.v1.Tigris/Read'',
      SearchMethodName = ''/tigrisdata.v1.Tigris/Search'',
      ListCollectionsMethodName = ''/tigrisdata.v1.Tigris/ListCollections'',
      ListProjectsMethodName = ''/tigrisdata.v1.Tigris/ListProjects'',
      DescribeCollectionMethodName = ''/tigrisdata.v1.Tigris/DescribeCollection'',
      DescribeDatabaseMethodName = ''/tigrisdata.v1.Tigris/DescribeDatabase'',
      CreateNamespaceMethodName = ''/tigrisdata.management.v1.Management/CreateNamespace'',
      ListNamespacesMethodName = ''/tigrisdata.management.v1.Management/ListNamespaces'',
      DeleteNamespaceMethodName = ''/tigrisdata.management.v1.Management/DeleteNamespace'',
      VerifyInvitationMethodName = ''/tigrisdata.auth.v1.Auth/verifyInvitation'',
      HeaderAuthorization = ''authorization'',
      GetHeader = (\<lambda>ctx header. if header = ''authorization'' then authorization else [])\<rparr>"

section \<open>Properties\<close>

subsection \<open>Splitting\<close>

lemma Split_not_Nil: "Split s sep \<noteq> []"
  by (induction s) (auto split: list.splits)

lemma SplitN_not_Nil: "SplitN s sep (Suc n) \<noteq> []"
  by (induction s sep "Suc n" arbitrary: n rule: SplitN.induct) (auto split: list.splits)

lemma SplitN_no_sep: "sep \<notin> set s \<Longrightarrow> SplitN s sep (Suc n) = [s]"
proof (induction s arbitrary: n)
  case Nil
  then show ?case by (cases n) simp_all
next
  case (Cons x xs)
  then show ?case by (cases n) auto
qed

lemma length_SplitN: "length (SplitN s sep n) = min n (length (Split s sep))"
proof (induction s sep n rule: SplitN.induct)
  case (1 s sep)
  then show ?case by simp
next
  case (2 s sep)
  then show ?case using Split_not_Nil[of s sep] by (cases "Split s sep") simp_all
next
  case (3 sep n)
  then show ?case by simp
next
  case (4 x xs sep n)
  then show ?case
    using Split_not_Nil[of xs sep] SplitN_not_Nil[of xs sep "Suc n"]
    by (auto split: list.splits)
qed

lemma SplitN_nth:
  "Suc i < n \<Longrightarrow> i < length (Split s sep) \<Longrightarrow> SplitN s sep n ! i = Split s sep ! i"
proof (induction s sep n arbitrary: i rule: SplitN.induct)
  case (1 s sep)
  then show ?case by simp
next
  case (2 s sep)
  then show ?case by simp
next
  case (3 sep n)
  then show ?case by simp
next
  case (4 x xs sep n)
  show ?case
  proof (cases "x = sep")
    case True
    with 4 show ?thesis by (cases i) auto
  next
    case False
    obtain y ys where a: "SplitN xs sep (Suc (Suc n)) = y # ys"
      using SplitN_not_Nil[of xs sep "Suc n"] by (cases "SplitN xs sep (Suc (Suc n))") auto
    obtain z zs where b: "Split xs sep = z # zs"
      using Split_not_Nil[of xs sep] by (cases "Split xs sep") auto
    have "i < length (Split xs sep)" using "4.prems"(2) False b by simp
    from "4.IH"(2)[OF False "4.prems"(1) this] have c: "(y # ys) ! i = (z # zs) ! i"
      by (simp add: a b)
    show ?thesis using False a b c by (cases i) auto
  qed
qed

lemma Split_single: "length (Split s sep) \<le> Suc 0 \<Longrightarrow> Split s sep = [s]"
proof (induction s)
  case Nil
  then show ?case by simp
next
  case (Cons x xs)
  then show ?case
    using Split_not_Nil[of xs sep] by (auto split: list.splits if_splits)
qed

lemma SplitN_eq_Split: "length (Split s sep) \<le> n \<Longrightarrow> SplitN s sep n = Split s sep"
proof (induction s sep n rule: SplitN.induct)
  case (1 s sep)
  then show ?case by (simp add: Split_not_Nil)
next
  case (2 s sep)
  then show ?case by (simp add: Split_single)
next
  case (3 sep n)
  then show ?case by simp
next
  case (4 x xs sep n)
  then show ?case
    using Split_not_Nil[of xs sep] SplitN_not_Nil[of xs sep "Suc n"]
    by (cases "x = sep") (auto split: list.splits)
qed

lemma getTokenFromHeader_no_space:
  "CHR '' '' \<notin> set header \<Longrightarrow> getTokenFromHeader header = Inl (Errorf ''could not find token in header'')"
  by (simp add: getTokenFromHeader_def SplitN_no_sep[of _ _ "Suc 0", simplified] numeral_2_eq_2)

subsection \<open>The base64 decoders and the JSON reader on the scenario values\<close>

text \<open>
  The decode map as a table, for evaluation: the position of each character in
  the alphabet \<open>encodeStd\<close>.
\<close>

lemma decodeMap_table [code]:
  "decodeMap c =
     map_of
      [(CHR ''A'', 0), (CHR ''B'', 1), (CHR ''C'', 2), (CHR ''D'', 3),
       (CHR ''E'', 4), (CHR ''F'', 5), (CHR ''G'', 6), (CHR ''H'', 7),
       (CHR ''I'', 8), (CHR ''J'', 9), (CHR ''K'', 10), (CHR ''L'', 11),
       (CHR ''M'', 12), (CHR ''N'', 13), (CHR ''O'', 14), (CHR ''P'', 15),
       (CHR ''Q'', 16), (CHR ''R'', 17), (CHR ''S'', 18), (CHR ''T'', 19),
       (CHR ''U'', 20), (CHR ''V'', 21), (CHR ''W'', 22), (CHR ''X'', 23),
       (CHR ''Y'', 24), (CHR ''Z'', 25), (CHR ''a'', 26), (CHR ''b'', 27),
       (CHR ''c'', 28), (CHR ''d'', 29), (CHR ''e'', 30), (CHR ''f'', 31),
       (CHR ''g'', 32), (CHR ''h'', 33), (CHR ''i'', 34), (CHR ''j'', 35),
       (CHR ''k'', 36), (CHR ''l'', 37), (CHR ''m'', 38), (CHR ''n'', 39),
       (CHR ''o'', 40), (CHR ''p'', 41), (CHR ''q'', 42), (CHR ''r'', 43),
       (CHR ''s'', 44), (CHR ''t'', 45), (CHR ''u'', 46), (CHR ''v'', 47),
       (CHR ''w'', 48), (CHR ''x'', 49), (CHR ''y'', 50), (CHR ''z'', 51),
       (CHR ''0'', 52), (CHR ''1'', 53), (CHR ''2'', 54), (CHR ''3'', 55),
       (CHR ''4'', 56), (CHR ''5'', 57), (CHR ''6'', 58), (CHR ''7'', 59),
       (CHR ''8'', 60), (CHR ''9'', 61), (CHR ''+'', 62), (CHR ''/'', 63)] c"
  by (simp add: decodeMap_def encodeStd_def upt_rec)

lemma raw_decode_claims_raw: "RawStdEncoding_DecodeString claims_b64_raw = Inr claims_payload"
  by code_simp

lemma raw_decode_claims_std: "RawStdEncoding_DecodeString claims_b64_std = Inl CorruptInputError"
  by code_simp

lemma std_decode_claims_std: "StdEncoding_DecodeString claims_b64_std = Inr claims_payload"
  by code_simp

lemma raw_decode_nosub_raw: "RawStdEncoding_DecodeString nosub_b64_raw = Inr nosub_payload"
  by code_simp

lemma claims_payload_nc:
  "jsonparser_GetString claims_payload [JWTTigrisClaimSpace, NamespaceCode] = Inr ''ns1''"
  by code_simp

lemma claims_payload_ue:
  "jsonparser_GetString claims_payload [JWTTigrisClaimSpace, UserEmail] = Inr ''e@x.com''"
  by code_simp

lemma claims_payload_r:
  "jsonparser_GetString claims_payload [JWTTigrisClaimSpace, Role] = Inr ''role1''"
  by code_simp

lemma claims_payload_sub:
  "jsonparser_GetString claims_payload [Subject] = Inr ''s''"
  by code_simp

lemma nosub_payload_nc:
  "jsonparser_GetString nosub_payload [JWTTigrisClaimSpace, NamespaceCode] = Inr ''ns1''"
  by code_simp

lemma nosub_payload_sub:
  "jsonparser_GetString nosub_payload [Subject] = Inl KeyPathNotFoundError"
  by code_simp

lemma decode_padded_unpadded:
  "decode (Some p) dbuf src = Inr out \<Longrightarrow>
   decode None dbuf src = Inr out \<or> decode None dbuf src = Inl CorruptInputError"
proof (induction src arbitrary: dbuf out)
  case Nil
  then show ?case by (simp split: if_splits)
next
  case (Cons c src)
  show ?case
  proof (cases "decodeMap c")
    case None
    show ?thesis
    proof (cases "is_newline c")
      case True
      with None Cons show ?thesis by simp
    next
      case False
      with None show ?thesis by simp
    qed
  next
    case (Some v)
    show ?thesis
    proof (cases "length dbuf = 3")
      case True
      with Some Cons.prems obtain rest where
        r: "decode (Some p) [] src = Inr rest" and o: "out = assemble (dbuf @ [v]) @ rest"
        by (auto split: sum.splits)
      from Cons.IH[OF r] show ?thesis
        using Some True o by auto
    next
      case False
      with Some Cons show ?thesis by simp
    qed
  qed
qed

lemma StdEncoding_RawStdEncoding:
  "StdEncoding_DecodeString s = Inr out \<Longrightarrow>
   RawStdEncoding_DecodeString s = Inr out \<or> RawStdEncoding_DecodeString s = Inl CorruptInputError"
  unfolding StdEncoding_DecodeString_def RawStdEncoding_DecodeString_def
  by (rule decode_padded_unpadded)

lemma Split_token_raw: "Split token_raw (CHR ''.'') = [''hdr'', claims_b64_raw, ''sig'']"
  by code_simp

lemma Split_token_std: "Split token_std (CHR ''.'') = [''hdr'', claims_b64_std, ''sig'']"
  by code_simp

lemma Split_token_four_segments:
  "Split token_four_segments (CHR ''.'') = [''hdr'', claims_b64_raw, ''sig'', ''extra'']"
  by code_simp

lemma SplitN_token_nosub:
  "SplitN token_nosub (CHR ''.'') 3 = [''hdr'', nosub_b64_raw, ''sig'']"
  by code_simp

lemma SplitN_of_Split3:
  "Split token sep = [a, b, c] \<Longrightarrow> SplitN token sep 3 = [a, b, c]"
  using SplitN_eq_Split[of token sep 3] by simp

lemma SplitN_3_cases:
  "3 \<le> length (Split token sep) \<Longrightarrow>
   \<exists>a c. SplitN token sep 3 = [a, Split token sep ! 1, c]"
proof -
  assume a: "3 \<le> length (Split token sep)"
  then have len: "length (SplitN token sep 3) = 3"
    by (simp add: length_SplitN)
  then obtain x y z where xyz: "SplitN token sep 3 = [x, y, z]"
    by (cases "SplitN token sep 3" rule: list.exhaust)
       (auto simp: length_Suc_conv numeral_3_eq_3)
  have "SplitN token sep 3 ! 1 = Split token sep ! 1"
    using a by (intro SplitN_nth) simp_all
  with xyz show ?thesis by simp
qed

subsection \<open>Token claims\<close>

lemma getMetadataFromToken_parts:
  "SplitN token (CHR ''.'') 3 = [hdr, mid, sg] \<Longrightarrow>
   getMetadataFromToken D L token =
     (case (case rawStdDecode L mid of
              Inr decoded \<Rightarrow> Inr decoded
            | Inl err \<Rightarrow> stdDecode L mid) of
        Inl err \<Rightarrow> (UnknownValue D, False, [], [])
      | Inr decodedToken \<Rightarrow>
          (case (case getString L decodedToken [JWTTigrisClaimSpace, NamespaceCode] of
                   Inr code \<Rightarrow> Inr code
                 | Inl err \<Rightarrow>
                     getString L decodedToken [JWTTigrisClaimSpace @ ''/n'', ''code'']) of
             Inl err \<Rightarrow> (UnknownValue D, False, [], [])
           | Inr namespaceCode \<Rightarrow>
               (case getString L decodedToken [Subject] of
                  Inl err \<Rightarrow> (UnknownValue D, False, [], [])
                | Inr sub \<Rightarrow>
                    (namespaceCode,
                     length (case getString L decodedToken [JWTTigrisClaimSpace, UserEmail] of
                               Inr v \<Rightarrow> v | Inl err \<Rightarrow> []) > 0,
                     sub,
                     (case getString L decodedToken [JWTTigrisClaimSpace, Role] of
                        Inr v \<Rightarrow> v | Inl err \<Rightarrow> [])))))"
  unfolding getMetadataFromToken_def Let_def
  by (simp cong: sum.case_cong)

lemma getMetadataFromToken_short:
  "length (SplitN token (CHR ''.'') 3) < 3 \<Longrightarrow>
   getMetadataFromToken D L token = (UnknownValue D, False, [], [])"
  by (simp add: getMetadataFromToken_def Let_def)

lemma getMetadataFromToken_claims:
  assumes "SplitN token (CHR ''.'') 3 = [hdr, mid, sg]"
      and "RawStdEncoding_DecodeString mid = Inr claims_payload \<or>
           StdEncoding_DecodeString mid = Inr claims_payload"
  shows "getMetadataFromToken D go_imports token = (''ns1'', True, ''s'', ''role1'')"
proof -
  have "(case rawStdDecode go_imports mid of
           Inr decoded \<Rightarrow> Inr decoded
         | Inl err \<Rightarrow> stdDecode go_imports mid) = Inr claims_payload"
    using assms(2) StdEncoding_RawStdEncoding[of mid claims_payload]
    by (auto simp: go_imports_def)
  then show ?thesis
    by (simp add: getMetadataFromToken_parts[OF assms(1)])
       (simp add: go_imports_def claims_payload_nc claims_payload_ue claims_payload_r
          claims_payload_sub)
qed

text \<open>
  Claim C1. For every token of three dot-separated segments whose middle
  segment is a base64 encoding of \<open>claims_payload\<close>, unpadded or padded (a string
  that \<open>RawStdEncoding\<close> or \<open>StdEncoding\<close> decodes to the payload),
  \<open>getMetadataFromToken\<close> returns namespace \<open>ns1\<close>, is-human true, subject \<open>s\<close> and
  role \<open>role1\<close>. The two encodings of the payload are such strings: the unpadded
  decoder reads the unpadded one and refuses the padded one, which the padded
  decoder reads. The unpadded decoding is attempted first: when it succeeds the
  result does not depend on the padded decoder, and when it fails the result is
  the one obtained from the padded decoder alone.
\<close>

theorem getMetadataFromToken_claims_payload:
  "RawStdEncoding_DecodeString claims_b64_raw = Inr claims_payload \<and>
   RawStdEncoding_DecodeString claims_b64_std = Inl CorruptInputError \<and>
   StdEncoding_DecodeString claims_b64_std = Inr claims_payload \<and>
   (Split token (CHR ''.'') = [hdr, mid, sg] \<and>
    (RawStdEncoding_DecodeString mid = Inr claims_payload \<or>
     StdEncoding_DecodeString mid = Inr claims_payload) \<longrightarrow>
      getMetadataFromToken D go_imports token = (''ns1'', True, ''s'', ''role1'')) \<and>
   (SplitN token (CHR ''.'') 3 = [hdr, mid, sg] \<and> rawStdDecode L mid = Inr decoded \<longrightarrow>
      getMetadataFromToken D (L\<lparr>stdDecode := other\<rparr>) token = getMetadataFromToken D L token) \<and>
   (SplitN token (CHR ''.'') 3 = [hdr, mid, sg] \<and> rawStdDecode L mid = Inl err \<longrightarrow>
      getMetadataFromToken D L token =
        getMetadataFromToken D (L\<lparr>rawStdDecode := stdDecode L\<rparr>) token)"
proof (intro conjI impI)
  show "RawStdEncoding_DecodeString claims_b64_raw = Inr claims_payload"
    by (rule raw_decode_claims_raw)
  show "RawStdEncoding_DecodeString claims_b64_std = Inl CorruptInputError"
    by (rule raw_decode_claims_std)
  show "StdEncoding_DecodeString claims_b64_std = Inr claims_payload"
    by (rule std_decode_claims_std)
next
  assume a: "Split token (CHR ''.'') = [hdr, mid, sg] \<and>
             (RawStdEncoding_DecodeString mid = Inr claims_payload \<or>
              StdEncoding_DecodeString mid = Inr claims_payload)"
  then have sp: "SplitN token (CHR ''.'') 3 = [hdr, mid, sg]"
    by (simp add: SplitN_of_Split3)
  from a have enc: "RawStdEncoding_DecodeString mid = Inr claims_payload \<or>
                    StdEncoding_DecodeString mid = Inr claims_payload"
    by (rule conjunct2)
  show "getMetadataFromToken D go_imports token = (''ns1'', True, ''s'', ''role1'')"
    by (rule getMetadataFromToken_claims[OF sp enc])
next
  assume "SplitN token (CHR ''.'') 3 = [hdr, mid, sg] \<and> rawStdDecode L mid = Inr decoded"
  then show "getMetadataFromToken D (L\<lparr>stdDecode := other\<rparr>) token =
             getMetadataFromToken D L token"
    by (simp add: getMetadataFromToken_parts[of token hdr mid sg] cong: sum.case_cong)
next
  assume "SplitN token (CHR ''.'') 3 = [hdr, mid, sg] \<and> rawStdDecode L mid = Inl err"
  then show "getMetadataFromToken D L token =
             getMetadataFromToken D (L\<lparr>rawStdDecode := stdDecode L\<rparr>) token"
    by (cases "stdDecode L mid")
       (simp_all add: getMetadataFromToken_parts[of token hdr mid sg] cong: sum.case_cong)
qed

text \<open>The token with the unpadded payload and the token with the padded one.\<close>

theorem getMetadataFromToken_claims_payload_witness:
  "getMetadataFromToken example_defaults go_imports token_raw = (''ns1'', True, ''s'', ''role1'') \<and>
   getMetadataFromToken example_defaults go_imports token_std = (''ns1'', True, ''s'', ''role1'')"
  using
    getMetadataFromToken_claims_payload[of token_raw "''hdr''" claims_b64_raw "''sig''"
      example_defaults]
    getMetadataFromToken_claims_payload[of token_std "''hdr''" claims_b64_std "''sig''"
      example_defaults]
  by (simp add: Split_token_raw Split_token_std)

text \<open>
  Claim C2. For every token whose payload decodes (by the unpadded decoder, or
  by the padded one after the unpadded one failed) and whose decoded payload has
  no top-level string claim \<open>sub\<close> (the lookup of \<open>sub\<close> fails),
  \<open>getMetadataFromToken\<close> returns the failure defaults: the unknown sentinel,
  false, the empty subject and the empty role. Nothing is assumed of the other
  lookups, so this holds whichever other claims the payload has.
\<close>

theorem getMetadataFromToken_missing_sub:
  assumes "SplitN token (CHR ''.'') 3 = [hdr, mid, sg]"
      and "rawStdDecode L mid = Inr payload \<or>
           (rawStdDecode L mid = Inl err \<and> stdDecode L mid = Inr payload)"
      and "getString L payload [Subject] = Inl err'"
  shows "getMetadataFromToken D L token = (UnknownValue D, False, [], [])"
  using assms(2,3)
  by (auto simp: getMetadataFromToken_parts[OF assms(1)] split: sum.splits)

text \<open>
  A payload with namespace code, user email and role and without \<open>sub\<close>.
\<close>

theorem getMetadataFromToken_missing_sub_witness:
  "jsonparser_GetString nosub_payload [JWTTigrisClaimSpace, NamespaceCode] = Inr ''ns1'' \<and>
   jsonparser_GetString nosub_payload [Subject] = Inl KeyPathNotFoundError \<and>
   getMetadataFromToken example_defaults go_imports token_nosub = (''unknown'', False, [], [])"
proof -
  have dec: "rawStdDecode go_imports nosub_b64_raw = Inr nosub_payload \<or>
        (rawStdDecode go_imports nosub_b64_raw = Inl CorruptInputError \<and>
         stdDecode go_imports nosub_b64_raw = Inr nosub_payload)"
    by (simp add: go_imports_def raw_decode_nosub_raw)
  have sub: "getString go_imports nosub_payload [Subject] = Inl KeyPathNotFoundError"
    by (simp add: go_imports_def nosub_payload_sub)
  show ?thesis
    using getMetadataFromToken_missing_sub[OF SplitN_token_nosub dec sub, of example_defaults]
    by (simp add: nosub_payload_nc nosub_payload_sub example_defaults_def)
qed

text \<open>
  Claim C3, as amended. For every token with fewer than three dot-separated
  segments \<open>getMetadataFromToken\<close> returns the failure defaults. A token with four
  or more segments is not refused for the number of its segments: the token is
  split at its first two dots only, so any two tokens with at least three
  segments and the same second segment have the same result.
\<close>

theorem getMetadataFromToken_segments:
  "(length (Split token (CHR ''.'')) < 3 \<longrightarrow>
      getMetadataFromToken D L token = (UnknownValue D, False, [], [])) \<and>
   (3 \<le> length (Split token (CHR ''.'')) \<and> 3 \<le> length (Split token' (CHR ''.'')) \<and>
    Split token (CHR ''.'') ! 1 = Split token' (CHR ''.'') ! 1 \<longrightarrow>
      getMetadataFromToken D L token = getMetadataFromToken D L token')"
proof (intro conjI impI)
  assume "length (Split token (CHR ''.'')) < 3"
  then have "length (SplitN token (CHR ''.'') 3) < 3"
    by (simp add: length_SplitN)
  then show "getMetadataFromToken D L token = (UnknownValue D, False, [], [])"
    by (rule getMetadataFromToken_short)
next
  assume a: "3 \<le> length (Split token (CHR ''.'')) \<and> 3 \<le> length (Split token' (CHR ''.'')) \<and>
             Split token (CHR ''.'') ! 1 = Split token' (CHR ''.'') ! 1"
  define mid where "mid = Split token (CHR ''.'') ! 1"
  have mid': "Split token' (CHR ''.'') ! 1 = mid"
    using a by (simp add: mid_def)
  obtain x z where t: "SplitN token (CHR ''.'') 3 = [x, mid, z]"
    using a SplitN_3_cases[of token "CHR ''.''"] unfolding mid_def by blast
  obtain x' z' where t': "SplitN token' (CHR ''.'') 3 = [x', mid, z']"
    using a SplitN_3_cases[of token' "CHR ''.''"] unfolding mid' by blast
  show "getMetadataFromToken D L token = getMetadataFromToken D L token'"
    unfolding getMetadataFromToken_parts[OF t] getMetadataFromToken_parts[OF t'] by (rule refl)
qed

theorem getMetadataFromToken_segments_witness:
  "getMetadataFromToken example_defaults go_imports ''hdr.payload'' =
     (''unknown'', False, [], []) \<and>
   getMetadataFromToken example_defaults go_imports token_four_segments =
     getMetadataFromToken example_defaults go_imports token_raw"
proof -
  have a: "length (Split ''hdr.payload'' (CHR ''.'')) < 3"
    by code_simp
  have b: "3 \<le> length (Split token_four_segments (CHR ''.'')) \<and>
           3 \<le> length (Split token_raw (CHR ''.'')) \<and>
           Split token_four_segments (CHR ''.'') ! 1 = Split token_raw (CHR ''.'') ! 1"
    by (simp add: Split_token_four_segments Split_token_raw)
  show ?thesis
    using a b
      getMetadataFromToken_segments[of "''hdr.payload''" example_defaults go_imports]
      getMetadataFromToken_segments[where token = token_four_segments and token' = token_raw
        and D = example_defaults and L = go_imports]
    by (simp add: example_defaults_def)
qed

text \<open>
  The claim as stated fails on a token of four segments whose second segment is
  the payload with the four claims: the result is the claims of the payload,
  not the failure defaults.
\<close>

theorem four_segments_counterexample:
  "length (Split token_four_segments (CHR ''.'')) = 4 \<and>
   getMetadataFromToken example_defaults go_imports token_four_segments =
     (''ns1'', True, ''s'', ''role1'') \<and>
   getMetadataFromToken example_defaults go_imports token_four_segments \<noteq>
     (UnknownValue example_defaults, False, [], [])"
proof -
  have "SplitN token_four_segments (CHR ''.'') 3 = [''hdr'', claims_b64_raw, ''sig.extra'']"
    by code_simp
  then have "getMetadataFromToken example_defaults go_imports token_four_segments =
     (''ns1'', True, ''s'', ''role1'')"
    by (rule getMetadataFromToken_claims[OF _ disjI1[OF raw_decode_claims_raw]])
  then show ?thesis
    by (simp add: Split_token_four_segments)
qed

text \<open>
  Claim C10. When namespace isolation is disabled, \<open>GetMetadataFromHeader\<close>
  returns the default namespace name, false, the empty subject and the empty
  role, and the Authorization header is not read: the result is the same for
  every other context and every other header lookup. The same quadruple, with
  the default namespace name and not the unknown sentinel, is returned when the
  Authorization header has no space in it.
\<close>

theorem GetMetadataFromHeader_isolation_disabled:
  "(\<not> EnableNamespaceIsolation cfg \<longrightarrow>
      GetMetadataFromHeader D cfg A L ctx = (DefaultNamespaceName D, False, [], []) \<and>
      GetMetadataFromHeader D cfg (A\<lparr>GetHeader := other\<rparr>) L ctx' =
        GetMetadataFromHeader D cfg A L ctx) \<and>
   (CHR '' '' \<notin> set (GetHeader A ctx (HeaderAuthorization A)) \<longrightarrow>
      GetMetadataFromHeader D cfg A L ctx = (DefaultNamespaceName D, False, [], []))"
  by (simp add: GetMetadataFromHeader_def getTokenFromHeader_no_space)

text \<open>
  With isolation disabled a header with a valid token gives the default
  quadruple; the same header gives the claims of the token once isolation is
  enabled; a header without a space gives the default quadruple there too.
\<close>

theorem GetMetadataFromHeader_isolation_disabled_witness:
  "GetMetadataFromHeader example_defaults auth_disabled (example_api bearer_header)
     go_imports Background = (''default_namespace'', False, [], []) \<and>
   GetMetadataFromHeader example_defaults auth_test_config (example_api bearer_header)
     go_imports Background = (''ns1'', True, ''s'', ''role1'') \<and>
   GetMetadataFromHeader example_defaults auth_test_config (example_api ''Bearer'')
     go_imports Background = (''default_namespace'', False, [], [])"
proof -
  have off: "\<not> EnableNamespaceIsolation auth_disabled"
    by (simp add: auth_disabled_def)
  have nospace: "CHR '' '' \<notin> set (GetHeader (example_api ''Bearer'') Background
      (HeaderAuthorization (example_api ''Bearer'')))"
    by (simp add: example_api_def)
  have tok: "getTokenFromHeader bearer_header = Inr token_raw"
    by (simp add: bearer_header_def getTokenFromHeader_def numeral_2_eq_2)
  have on: "GetMetadataFromHeader example_defaults auth_test_config
      (example_api bearer_header) go_imports Background =
      (''ns1'', True, ''s'', ''role1'')"
    using getMetadataFromToken_claims[OF SplitN_of_Split3[OF Split_token_raw]
        disjI1[OF raw_decode_claims_raw], of example_defaults]
    by (simp add: GetMetadataFromHeader_def auth_test_config_def example_api_def tok)
  show ?thesis
    using off nospace on
      GetMetadataFromHeader_isolation_disabled[of auth_disabled example_defaults
        "example_api bearer_header" go_imports Background]
      GetMetadataFromHeader_isolation_disabled[of auth_test_config example_defaults
        "example_api ''Bearer''" go_imports Background]
    by (simp add: example_defaults_def)
qed

subsection \<open>Namespace resolution\<close>

text \<open>
  Claim C4. \<open>SetNamespace\<close> short-circuits without calling the tenant directory
  in two cases. When neither namespace isolation nor authentication is enabled,
  the display name is the default namespace name, for every identifier.
  Otherwise, when the identifier is the unknown sentinel, the display name is the
  unknown sentinel. In both cases the call returns normally whatever the
  directory is (also when it was never initialised), the result does not depend
  on it, and the state of the directory is the one before the call: a directory
  that counts its calls has counted none.
\<close>

theorem SetNamespace_short_circuit:
  "(\<not> EnableNamespaceIsolation cfg \<and> \<not> Enabled cfg \<longrightarrow>
      SetNamespace D cfg tenantGetter m ctx ns s =
        Inr (m\<lparr>namespace := ns, namespaceName := DefaultNamespaceName D\<rparr>, s)) \<and>
   ((EnableNamespaceIsolation cfg \<or> Enabled cfg) \<and> ns = UnknownValue D \<longrightarrow>
      SetNamespace D cfg tenantGetter m ctx ns s =
        Inr (m\<lparr>namespace := ns, namespaceName := UnknownValue D\<rparr>, s))"
  by (auto simp: SetNamespace_def Let_def)

text \<open>
  The two cases on a directory that counts its calls, and on a directory that
  was never initialised; the last line is a call that does reach the directory,
  which then has counted one call.
\<close>

theorem SetNamespace_short_circuit_witness:
  "SetNamespace example_defaults auth_disabled (Some counting_found) zero_Metadata Background
     ''ns1'' (0::nat) =
     Inr (zero_Metadata\<lparr>namespace := ''ns1'', namespaceName := ''default_namespace''\<rparr>, 0) \<and>
   SetNamespace example_defaults auth_disabled (None :: nat TenantGetter option) zero_Metadata
     Background ''ns1'' 0 =
     Inr (zero_Metadata\<lparr>namespace := ''ns1'', namespaceName := ''default_namespace''\<rparr>, 0) \<and>
   SetNamespace example_defaults auth_test_config (Some counting_found) zero_Metadata Background
     ''unknown'' (0::nat) =
     Inr (zero_Metadata\<lparr>namespace := ''unknown'', namespaceName := ''unknown''\<rparr>, 0) \<and>
   SetNamespace example_defaults auth_test_config (Some counting_found) zero_Metadata Background
     ''ns1'' (0::nat) =
     Inr (zero_Metadata\<lparr>namespace := ''ns1'', namespaceName := ''Acme Corp''\<rparr>, 1)"
proof -
  have off: "\<not> EnableNamespaceIsolation auth_disabled \<and> \<not> Enabled auth_disabled"
    by (simp add: auth_disabled_def)
  have on: "(EnableNamespaceIsolation auth_test_config \<or> Enabled auth_test_config) \<and>
            ''unknown'' = UnknownValue example_defaults"
    by (simp add: auth_test_config_def example_defaults_def)
  have called: "SetNamespace example_defaults auth_test_config (Some counting_found)
      zero_Metadata Background ''ns1'' (0::nat) =
      Inr (zero_Metadata\<lparr>namespace := ''ns1'', namespaceName := ''Acme Corp''\<rparr>, 1)"
    by (simp add: SetNamespace_def auth_test_config_def example_defaults_def counting_found_def)
  show ?thesis
    using off on called
      SetNamespace_short_circuit[of auth_disabled example_defaults "Some counting_found"
        zero_Metadata Background "''ns1''" "0::nat"]
      SetNamespace_short_circuit[of auth_disabled example_defaults "None :: nat TenantGetter option"
        zero_Metadata Background "''ns1''" "0::nat"]
      SetNamespace_short_circuit[of auth_test_config example_defaults "Some counting_found"
        zero_Metadata Background "''unknown''" "0::nat"]
    by (simp add: example_defaults_def)
qed

text \<open>
  Claim C5. When \<open>SetNamespace\<close> does consult the tenant directory (one of the two
  flags is on, the identifier is not the unknown sentinel, the directory is
  initialised and its lookup returns), a lookup that returns an error or a nil
  tenant degrades the display name to the unknown sentinel, and a successful
  lookup sets it to the tenant's name. In each case the call returns normally,
  there is no error in what it returns, and the namespace identifier is the one
  requested.
\<close>

theorem SetNamespace_lookup:
  assumes "EnableNamespaceIsolation cfg \<or> Enabled cfg"
      and "ns \<noteq> UnknownValue D"
      and "GetTenant ctx ns s = ((tenant, err), s')"
  shows "(err \<noteq> None \<or> tenant = None \<longrightarrow>
            SetNamespace D cfg (Some GetTenant) m ctx ns s =
              Inr (m\<lparr>namespace := ns, namespaceName := UnknownValue D\<rparr>, s')) \<and>
         (err = None \<and> tenant = Some t \<longrightarrow>
            SetNamespace D cfg (Some GetTenant) m ctx ns s =
              Inr (m\<lparr>namespace := ns, namespaceName := GetNamespace_Metadata_Name t\<rparr>, s'))"
  using assms by (auto simp: SetNamespace_def Let_def split: option.splits)

theorem SetNamespace_lookup_witness:
  "SetNamespace example_defaults auth_test_config (Some counting_not_found) zero_Metadata
     Background ''ns1'' (0::nat) =
     Inr (zero_Metadata\<lparr>namespace := ''ns1'', namespaceName := ''unknown''\<rparr>, 1) \<and>
   SetNamespace example_defaults auth_test_config (Some counting_nil) zero_Metadata
     Background ''ns1'' (0::nat) =
     Inr (zero_Metadata\<lparr>namespace := ''ns1'', namespaceName := ''unknown''\<rparr>, 1) \<and>
   SetNamespace example_defaults auth_test_config (Some counting_found) zero_Metadata
     Background ''ns1'' (0::nat) =
     Inr (zero_Metadata\<lparr>namespace := ''ns1'', namespaceName := ''Acme Corp''\<rparr>, 1)"
proof -
  have on: "EnableNamespaceIsolation auth_test_config \<or> Enabled auth_test_config"
    by (simp add: auth_test_config_def)
  have ns: "''ns1'' \<noteq> UnknownValue example_defaults"
    by (simp add: example_defaults_def)
  have a: "counting_not_found Background ''ns1'' (0::nat) =
             ((None, Some (errors_NotFound ''namespace not found'')), 1)"
    by (simp add: counting_not_found_def)
  have b: "counting_nil Background ''ns1'' (0::nat) = ((None, None), 1)"
    by (simp add: counting_nil_def)
  have c: "counting_found Background ''ns1'' (0::nat) = ((Some (Tenant ''Acme Corp''), None), 1)"
    by (simp add: counting_found_def)
  show ?thesis
    using
      SetNamespace_lookup[where GetTenant = counting_not_found and ctx = Background
        and s = "0::nat" and m = zero_Metadata and t = "Tenant ''Acme Corp''", OF on ns a]
      SetNamespace_lookup[where GetTenant = counting_nil and ctx = Background
        and s = "0::nat" and m = zero_Metadata and t = "Tenant ''Acme Corp''", OF on ns b]
      SetNamespace_lookup[where GetTenant = counting_found and ctx = Background
        and s = "0::nat" and m = zero_Metadata and t = "Tenant ''Acme Corp''", OF on ns c]
    by (simp add: example_defaults_def)
qed

subsection \<open>Method classification\<close>

lemma Contains_NewHashSet: "Contains (NewHashSet xs) x = (x \<in> set xs)"
proof -
  have "\<And>m. (fold (\<lambda>x stringMap. stringMap(x \<mapsto> ())) xs m) x \<noteq> None
          \<longleftrightarrow> x \<in> set xs \<or> m x \<noteq> None"
    by (induction xs) auto
  then show ?thesis by (simp add: Contains_def NewHashSet_def)
qed

text \<open>
  Claim C6. \<open>isRead\<close> and \<open>isWrite\<close> partition the method names: for every name
  exactly one of the two holds. \<open>isRead\<close> holds exactly for the names with the
  observability prefix, the names with the management prefix and the six names
  read, search, list-collections, list-projects, describe-collection and
  describe-database; \<open>isWrite\<close> holds for every other name.
\<close>

theorem isRead_isWrite_partition:
  "(isRead A name \<or> isWrite A name) \<and> \<not> (isRead A name \<and> isWrite A name) \<and>
   isRead A name =
     (HasPrefix name (ObservabilityMethodPrefix A) \<or>
      HasPrefix name (ManagementMethodPrefix A) \<or>
      name \<in> {ReadMethodName A, SearchMethodName A, ListCollectionsMethodName A,
               ListProjectsMethodName A, DescribeCollectionMethodName A,
               DescribeDatabaseMethodName A}) \<and>
   isWrite A name =
     (\<not> HasPrefix name (ObservabilityMethodPrefix A) \<and>
      \<not> HasPrefix name (ManagementMethodPrefix A) \<and>
      name \<notin> {ReadMethodName A, SearchMethodName A, ListCollectionsMethodName A,
               ListProjectsMethodName A, DescribeCollectionMethodName A,
               DescribeDatabaseMethodName A})"
  by (auto simp: isWrite_def isRead_def)

text \<open>
  Claim C8. \<open>IsAdminApi\<close> holds exactly for the four names create-namespace,
  list-namespaces, delete-namespace and verify-invitation. In particular it
  holds for the create-namespace method, and it does not depend on what decides
  the read/write classification: changing the two prefixes and the six read
  names leaves it as it is.
\<close>

theorem IsAdminApi_fixed_set:
  "IsAdminApi A name =
     (name \<in> {CreateNamespaceMethodName A, ListNamespacesMethodName A,
               DeleteNamespaceMethodName A, VerifyInvitationMethodName A}) \<and>
   IsAdminApi A (CreateNamespaceMethodName A) \<and>
   IsAdminApi
     (A\<lparr>ObservabilityMethodPrefix := op, ManagementMethodPrefix := mp,
        ReadMethodName := r, SearchMethodName := s, ListCollectionsMethodName := lc,
        ListProjectsMethodName := lp, DescribeCollectionMethodName := dc,
        DescribeDatabaseMethodName := dd\<rparr>) name = IsAdminApi A name"
  by (auto simp: IsAdminApi_def adminMethods_def Contains_NewHashSet)

subsection \<open>Routing fields of the payload\<close>

text \<open>
  Claim C7. \<open>GetProjectAndBranchAndColl\<close> returns (project, branch, collection).
  For a payload with the getters of project, branch and collection, project and
  collection are the payload's and the branch is \<open>main\<close> when the payload's branch
  is empty and the payload's branch otherwise. For a payload with the getters of
  project and branch only, the project is the payload's, the collection is empty
  and the branch follows the same rule. For a payload that lacks the project
  getter or the branch getter, and for the nil payload, project and collection
  are empty and the branch is the unknown placeholder.
\<close>

theorem GetProjectAndBranchAndColl_cases:
  "GetProjectAndBranchAndColl D
     (Some \<lparr>GetProject = Some p, GetBranch = Some b, GetCollection = Some c\<rparr>) =
     (p, if b = [] then ''main'' else b, c) \<and>
   GetProjectAndBranchAndColl D
     (Some \<lparr>GetProject = Some p, GetBranch = Some b, GetCollection = None\<rparr>) =
     (p, if b = [] then ''main'' else b, []) \<and>
   GetProjectAndBranchAndColl D
     (Some \<lparr>GetProject = None, GetBranch = gb, GetCollection = gc\<rparr>) =
     ([], UnknownValue D, []) \<and>
   GetProjectAndBranchAndColl D
     (Some \<lparr>GetProject = gp, GetBranch = None, GetCollection = gc\<rparr>) =
     ([], UnknownValue D, []) \<and>
   GetProjectAndBranchAndColl D None = ([], UnknownValue D, [])"
  by (simp add: GetProjectAndBranchAndColl_def split: option.splits)

subsection \<open>Accessors of the context\<close>

lemma Value_not_attached: "\<not> attached ctx key \<Longrightarrow> Value ctx key = NilValue"
  by (induction ctx) auto

text \<open>
  Claim C9. On a context that never had metadata attached (no entry of the chain
  is stored under \<open>MetadataCtxKey\<close>), \<open>GetRequestMetadataFromContext\<close>,
  \<open>GetAccessToken\<close>, \<open>GetCurrentSub\<close> and \<open>GetNamespace\<close> each fail with an error of
  the code NotFound, and \<open>IsHumanUser\<close> returns false.
\<close>

theorem accessors_NotFound:
  assumes "\<not> attached ctx MetadataCtxKey"
  shows "GetRequestMetadataFromContext ctx = Inl (TigrisError NotFound ''Metadata not found'') \<and>
         GetAccessToken ctx = Inl (TigrisError NotFound ''Access token not found'') \<and>
         GetCurrentSub ctx = Inl (TigrisError NotFound ''Access token not found'') \<and>
         GetNamespace ctx = Inl (TigrisError NotFound ''namespace not found'') \<and>
         IsHumanUser ctx = False"
  using Value_not_attached[OF assms]
  by (simp add: GetRequestMetadataFromContext_def GetAccessToken_def GetCurrentSub_def
      GetNamespace_def IsHumanUser_def ErrNamespaceNotFound_def errors_NotFound_def)

theorem accessors_NotFound_witness:
  "\<not> attached (WithValue Background (OtherKey ''trace'') (OtherValue ''t1'')) MetadataCtxKey \<and>
   GetRequestMetadataFromContext (WithValue Background (OtherKey ''trace'') (OtherValue ''t1'')) =
     Inl (TigrisError NotFound ''Metadata not found'') \<and>
   GetAccessToken Background = Inl (TigrisError NotFound ''Access token not found'') \<and>
   GetCurrentSub Background = Inl (TigrisError NotFound ''Access token not found'') \<and>
   GetNamespace Background = Inl (TigrisError NotFound ''namespace not found'') \<and>
   IsHumanUser Background = False"
  using accessors_NotFound[of "WithValue Background (OtherKey ''trace'') (OtherValue ''t1'')"]
    accessors_NotFound[of Background]
  by simp

end
